theory Spec2Isabelle
  imports Main "HOL-Library.Char_ord" "HOL-Library.List_Lexorder"
begin

section \<open>JavaScript values used by the permission evaluator\<close>

text \<open>
  The tables of \<^verbatim>\<open>UserRoleContext.jsx\<close> are object literals indexed by strings
  (\<^verbatim>\<open>PERMISSIONS[permission]\<close>, \<^verbatim>\<open>ROLE_HIERARCHY[role]\<close>). An object literal is
  modelled by the association list of its own properties, in source order. Reading
  \<^verbatim>\<open>obj[key]\<close> first looks at the own properties and then follows the prototype chain:
  every object literal inherits the members of \<^verbatim>\<open>Object.prototype\<close>, so the read gives
  an own value, an inherited member, or \<^verbatim>\<open>undefined\<close>.
\<close>

definition Object_prototype_keys :: "string list" where
  "Object_prototype_keys =
    [''constructor'', ''hasOwnProperty'', ''isPrototypeOf'', ''propertyIsEnumerable'',
     ''toLocaleString'', ''toString'', ''valueOf'', ''__proto__'',
     ''__defineGetter__'', ''__defineSetter__'', ''__lookupGetter__'', ''__lookupSetter__'']"

datatype 'a property = Own 'a | Inherited string | Undefined

definition js_get :: "(string \<times> 'a) list \<Rightarrow> string \<Rightarrow> 'a property" where
  "js_get obj k =
    (case map_of obj k of
       Some v \<Rightarrow> Own v
     | None \<Rightarrow> if k \<in> set Object_prototype_keys then Inherited k else Undefined)"

text \<open>
  A value of the type the code expects, or a member of \<^verbatim>\<open>Object.prototype\<close> (eleven
  functions and, under \<^verbatim>\<open>__proto__\<close>, the prototype object itself), kept by its name.
\<close>

datatype 'a jsval = Val 'a | Proto string

text \<open>
  \<^verbatim>\<open>obj[key] || d\<close>: an own value when it is truthy, the inherited member (objects and
  functions are truthy), else the default.
\<close>

definition or_default :: "('a \<Rightarrow> bool) \<Rightarrow> 'a property \<Rightarrow> 'a \<Rightarrow> 'a jsval" where
  "or_default truthy p d =
    (case p of
       Own v \<Rightarrow> if truthy v then Val v else Val d
     | Inherited k \<Rightarrow> Proto k
     | Undefined \<Rightarrow> Val d)"

definition truthy_num :: "nat \<Rightarrow> bool" where
  "truthy_num n = (n \<noteq> 0)"

definition truthy_str :: "string \<Rightarrow> bool" where
  "truthy_str s = (s \<noteq> [])"

text \<open>
  A nullable string (\<^verbatim>\<open>null\<close> is \<open>None\<close>) is truthy when it is a non-empty string:
  this is what \<^verbatim>\<open>if (token)\<close> and \<^verbatim>\<open>!userRole\<close> test.
\<close>

definition truthy :: "string option \<Rightarrow> bool" where
  "truthy x = (case x of None \<Rightarrow> False | Some s \<Rightarrow> truthy_str s)"

datatype js_error = TypeError

text \<open>
  The state variable \<^verbatim>\<open>roleLevel\<close>. It starts as the number 0 and is written only by
  \<^verbatim>\<open>setRoleLevel(ROLE_HIERARCHY[role] || 0)\<close> and \<^verbatim>\<open>setRoleLevel(0)\<close>. A state
  setter of React stores its argument, unless the argument is a function: then it calls
  the function on the previous state, with no receiver, and stores the result. So an
  inherited function is run as an updater, and the values the state can take are: a number;
  the Number object \<^verbatim>\<open>Object(n)\<close>; the string \<^verbatim>\<open>[object Undefined]\<close> that
  \<^verbatim>\<open>toString\<close> gives without a receiver, and its String object; \<^verbatim>\<open>false\<close>, which
  \<^verbatim>\<open>isPrototypeOf\<close> gives for a primitive, and its Boolean object; and the prototype
  object itself, which \<^verbatim>\<open>__proto__\<close> reads.
\<close>

datatype level =
    Num nat
  | NumObj nat
  | TagUndefined
  | TagUndefinedObj
  | JsFalse
  | JsFalseObj
  | ObjectPrototype

definition is_object :: "level \<Rightarrow> bool" where
  "is_object l = (case l of Num n \<Rightarrow> False | TagUndefined \<Rightarrow> False | JsFalse \<Rightarrow> False | _ \<Rightarrow> True)"

text \<open>\<^verbatim>\<open>Object(prev)\<close>: a primitive is wrapped, an object is returned as it is.\<close>

definition box :: "level \<Rightarrow> level" where
  "box l =
    (case l of
       Num n \<Rightarrow> NumObj n
     | TagUndefined \<Rightarrow> TagUndefinedObj
     | JsFalse \<Rightarrow> JsFalseObj
     | _ \<Rightarrow> l)"

text \<open>
  The setter on the value of \<^verbatim>\<open>ROLE_HIERARCHY[role] || 0\<close>. Of the inherited
  functions, \<^verbatim>\<open>constructor\<close> is \<^verbatim>\<open>Object\<close>; \<^verbatim>\<open>toString\<close> ignores its argument;
  \<^verbatim>\<open>isPrototypeOf\<close> returns false for a primitive argument before it looks at its
  receiver; every other one first converts its receiver, which is \<^verbatim>\<open>undefined\<close>, to an
  object and raises a TypeError (in the render that runs the update).
\<close>

definition setRoleLevel :: "level \<Rightarrow> nat jsval \<Rightarrow> js_error + level" where
  "setRoleLevel prev v =
    (case v of
       Val n \<Rightarrow> Inr (Num n)
     | Proto k \<Rightarrow>
         if k = ''__proto__'' then Inr ObjectPrototype
         else if k = ''constructor'' then Inr (box prev)
         else if k = ''toString'' then Inr TagUndefined
         else if k = ''isPrototypeOf'' then (if is_object prev then Inl TypeError else Inr JsFalse)
         else Inl TypeError)"

text \<open>
  The relational operators convert an object operand to a primitive: a Number, String or
  Boolean object gives the value it wraps, a function gives its source text
  \<^verbatim>\<open>function name() { [native code] }\<close>, the prototype object gives
  \<^verbatim>\<open>[object Object]\<close>. Two strings are compared as strings, code unit by code unit.
  Otherwise both sides are converted to numbers: \<^verbatim>\<open>false\<close> is 0, and none of the strings
  here is numeric, so such a string compares as NaN and the comparison is false.
\<close>

definition to_primitive :: "string \<Rightarrow> string" where
  "to_primitive k =
    (if k = ''__proto__'' then ''[object Object]''
     else ''function '' @ (if k = ''constructor'' then ''Object'' else k) @ ''() { [native code] }'')"

definition level_number :: "level \<Rightarrow> nat option" where
  "level_number l =
    (case l of
       Num n \<Rightarrow> Some n
     | NumObj n \<Rightarrow> Some n
     | JsFalse \<Rightarrow> Some 0
     | JsFalseObj \<Rightarrow> Some 0
     | _ \<Rightarrow> None)"

definition level_string :: "level \<Rightarrow> string option" where
  "level_string l =
    (case l of
       TagUndefined \<Rightarrow> Some ''[object Undefined]''
     | TagUndefinedObj \<Rightarrow> Some ''[object Undefined]''
     | ObjectPrototype \<Rightarrow> Some ''[object Object]''
     | _ \<Rightarrow> None)"

text \<open>\<^verbatim>\<open>roleLevel > v\<close> and \<^verbatim>\<open>v <= roleLevel\<close>, for \<open>v\<close> read from the hierarchy table.\<close>

definition js_gt :: "level \<Rightarrow> nat jsval \<Rightarrow> bool" where
  "js_gt l v =
    (case v of
       Val m \<Rightarrow> (case level_number l of Some n \<Rightarrow> n > m | None \<Rightarrow> False)
     | Proto k \<Rightarrow> (case level_string l of Some x \<Rightarrow> x > to_primitive k | None \<Rightarrow> False))"

definition js_le :: "nat jsval \<Rightarrow> level \<Rightarrow> bool" where
  "js_le v l =
    (case v of
       Val n \<Rightarrow> (case level_number l of Some m \<Rightarrow> n \<le> m | None \<Rightarrow> False)
     | Proto k \<Rightarrow> (case level_string l of Some x \<Rightarrow> to_primitive k \<le> x | None \<Rightarrow> False))"

section \<open>Roles, hierarchy and permissions\<close>

abbreviation "SUPER_ADMIN \<equiv> ''super_admin''"
abbreviation "ADMIN \<equiv> ''admin''"
abbreviation "ENGINEER_OF_RECORD \<equiv> ''engineer_of_record''"
abbreviation "TSF_OPERATOR \<equiv> ''tsf_operator''"
abbreviation "REGULATOR \<equiv> ''regulator''"
abbreviation "MANAGEMENT \<equiv> ''management''"
abbreviation "CONSULTANT \<equiv> ''consultant''"
abbreviation "VIEWER \<equiv> ''viewer''"

definition USER_ROLES :: "(string \<times> string) list" where
  "USER_ROLES =
    [(''SUPER_ADMIN'', SUPER_ADMIN),
     (''ADMIN'', ADMIN),
     (''ENGINEER_OF_RECORD'', ENGINEER_OF_RECORD),
     (''TSF_OPERATOR'', TSF_OPERATOR),
     (''REGULATOR'', REGULATOR),
     (''MANAGEMENT'', MANAGEMENT),
     (''CONSULTANT'', CONSULTANT),
     (''VIEWER'', VIEWER)]"

definition ROLE_HIERARCHY :: "(string \<times> nat) list" where
  "ROLE_HIERARCHY =
    [(SUPER_ADMIN, 8),
     (ADMIN, 7),
     (ENGINEER_OF_RECORD, 6),
     (MANAGEMENT, 5),
     (TSF_OPERATOR, 4),
     (REGULATOR, 3),
     (CONSULTANT, 2),
     (VIEWER, 1)]"

definition PERMISSIONS :: "(string \<times> string list) list" where
  "PERMISSIONS =
    [(''canAccessAdminPanel'', [SUPER_ADMIN, ADMIN]),
     (''canManageUsers'', [SUPER_ADMIN, ADMIN]),
     (''canDeleteUsers'', [SUPER_ADMIN]),
     (''canResetPasswords'', [SUPER_ADMIN, ADMIN]),
     (''canUploadDocuments'',
        [SUPER_ADMIN, ADMIN, ENGINEER_OF_RECORD, TSF_OPERATOR, MANAGEMENT]),
     (''canDeleteDocuments'', [SUPER_ADMIN, ADMIN, ENGINEER_OF_RECORD]),
     (''canViewAllDocuments'',
        [SUPER_ADMIN, ADMIN, ENGINEER_OF_RECORD, REGULATOR, MANAGEMENT]),
     (''canViewMonitoring'',
        [SUPER_ADMIN, ADMIN, ENGINEER_OF_RECORD, TSF_OPERATOR, REGULATOR, MANAGEMENT,
         CONSULTANT, VIEWER]),
     (''canEditMonitoring'', [SUPER_ADMIN, ADMIN, ENGINEER_OF_RECORD, TSF_OPERATOR]),
     (''canViewCompliance'',
        [SUPER_ADMIN, ADMIN, ENGINEER_OF_RECORD, REGULATOR, MANAGEMENT]),
     (''canEditCompliance'', [SUPER_ADMIN, ADMIN, ENGINEER_OF_RECORD]),
     (''canUseAIQuery'',
        [SUPER_ADMIN, ADMIN, ENGINEER_OF_RECORD, TSF_OPERATOR, REGULATOR, MANAGEMENT,
         CONSULTANT]),
     (''canGenerateSyntheticData'', [SUPER_ADMIN, ADMIN, ENGINEER_OF_RECORD]),
     (''canViewSyntheticData'', [SUPER_ADMIN, ADMIN, ENGINEER_OF_RECORD, TSF_OPERATOR])]"

text \<open>
  The user object delivered by the backend. Only the two fields the evaluator reads are
  kept; either may be missing. Facility identifiers are of any type with equality.
\<close>

record 'f user =
  role :: "string option"
  facilities_access :: "'f list option"

text \<open>
  \<^verbatim>\<open>currentUser?.role\<close>: \<^verbatim>\<open>undefined\<close> when there is no user or no role.
\<close>

definition user_role :: "'f user option \<Rightarrow> string option" where
  "user_role cu = (case cu of None \<Rightarrow> None | Some u \<Rightarrow> role u)"

text \<open>
  The effect of \<^verbatim>\<open>UserRoleProvider\<close> on \<^verbatim>\<open>currentUser\<close>: the two derived state
  variables \<^verbatim>\<open>userRole\<close> and \<^verbatim>\<open>roleLevel\<close>.
\<close>

definition userRole_of :: "'f user option \<Rightarrow> string option" where
  "userRole_of cu = (if truthy (user_role cu) then user_role cu else None)"

text \<open>
  \<^verbatim>\<open>ROLE_HIERARCHY[role] || 0\<close>, as the provider's effect, \<^verbatim>\<open>hasHigherRoleThan\<close> and
  \<^verbatim>\<open>getAvailableRoles\<close> compute it.
\<close>

definition lookup_level :: "string \<Rightarrow> nat jsval" where
  "lookup_level r = or_default truthy_num (js_get ROLE_HIERARCHY r) 0"

text \<open>
  The provider's effect on \<^verbatim>\<open>roleLevel\<close>, from the previous value and the role of the
  new \<^verbatim>\<open>currentUser\<close>.
\<close>

definition role_level :: "level \<Rightarrow> string option \<Rightarrow> js_error + level" where
  "role_level prev r =
    (case r of
       None \<Rightarrow> Inr (Num 0)
     | Some x \<Rightarrow> if truthy_str x then setRoleLevel prev (lookup_level x) else Inr (Num 0))"

definition roleLevel_of :: "level \<Rightarrow> 'f user option \<Rightarrow> js_error + level" where
  "roleLevel_of prev cu = role_level prev (user_role cu)"

text \<open>
  \<^verbatim>\<open>hasPermission\<close>: the guard returns false for a missing role and for a name that reads
  as \<^verbatim>\<open>undefined\<close>. Own values are arrays, which are truthy and have \<^verbatim>\<open>includes\<close>; an
  inherited member is truthy too but has no \<^verbatim>\<open>includes\<close>, so the call of
  \<^verbatim>\<open>undefined\<close> raises a TypeError.
\<close>

definition hasPermission :: "string option \<Rightarrow> string \<Rightarrow> js_error + bool" where
  "hasPermission userRole permission =
    (case userRole of
       None \<Rightarrow> Inr False
     | Some r \<Rightarrow>
         if \<not> truthy_str r then Inr False
         else (case js_get PERMISSIONS permission of
                 Undefined \<Rightarrow> Inr False
               | Own roles \<Rightarrow> Inr (r \<in> set roles)
               | Inherited k \<Rightarrow> Inl TypeError))"

text \<open>\<^verbatim>\<open>hasHigherRoleThan\<close> reads the state variable \<^verbatim>\<open>roleLevel\<close>.\<close>

definition hasHigherRoleThan :: "level \<Rightarrow> string \<Rightarrow> bool" where
  "hasHigherRoleThan roleLevel otherUserRole = js_gt roleLevel (lookup_level otherUserRole)"

definition roleNames :: "(string \<times> string) list" where
  "roleNames =
    [(SUPER_ADMIN, ''Super Administrator''),
     (ADMIN, ''Administrator''),
     (ENGINEER_OF_RECORD, ''Engineer of Record''),
     (TSF_OPERATOR, ''TSF Operator''),
     (REGULATOR, ''Regulator''),
     (MANAGEMENT, ''Management''),
     (CONSULTANT, ''Consultant''),
     (VIEWER, ''Viewer'')]"

definition getRoleDisplayName :: "string \<Rightarrow> string jsval" where
  "getRoleDisplayName r = or_default truthy_str (js_get roleNames r) ''Unknown Role''"

definition roleColors :: "(string \<times> string) list" where
  "roleColors =
    [(SUPER_ADMIN, ''#d32f2f''),
     (ADMIN, ''#f57c00''),
     (ENGINEER_OF_RECORD, ''#006039''),
     (TSF_OPERATOR, ''#1976d2''),
     (REGULATOR, ''#7b1fa2''),
     (MANAGEMENT, ''#388e3c''),
     (CONSULTANT, ''#0288d1''),
     (VIEWER, ''#616161'')]"

definition getRoleColor :: "string \<Rightarrow> string jsval" where
  "getRoleColor r = or_default truthy_str (js_get roleColors r) ''#616161''"

text \<open>
  \<^verbatim>\<open>canAccessFacility\<close>: \<^verbatim>\<open>!currentUser?.facilities_access\<close> holds when there is no
  user or no list (an array, even an empty one, is truthy); \<^verbatim>\<open>||\<close> does not evaluate its
  right operand when the facility is in the list.
\<close>

definition user_facilities :: "'f user option \<Rightarrow> 'f list option" where
  "user_facilities cu = (case cu of None \<Rightarrow> None | Some u \<Rightarrow> facilities_access u)"

definition canAccessFacility :: "'f user option \<Rightarrow> string option \<Rightarrow> 'f \<Rightarrow> js_error + bool" where
  "canAccessFacility cu userRole facilityId =
    (case user_facilities cu of
       None \<Rightarrow> hasPermission userRole ''canViewAllDocuments''
     | Some fs \<Rightarrow>
         if facilityId \<in> set fs then Inr True
         else hasPermission userRole ''canViewAllDocuments'')"

record role_option =
  role_value :: string
  role_label :: "string jsval"
  role_color :: "string jsval"

definition getAvailableRoles :: "level \<Rightarrow> role_option list" where
  "getAvailableRoles roleLevel =
    map (\<lambda>(key, v). \<lparr>role_value = v, role_label = getRoleDisplayName v, role_color = getRoleColor v\<rparr>)
      (filter (\<lambda>(key, roleValue). js_le (lookup_level roleValue) roleLevel) USER_ROLES)"

text \<open>
  The route guard of \<^verbatim>\<open>App.jsx\<close>. It reads \<^verbatim>\<open>currentUser\<close> and \<^verbatim>\<open>loading\<close> from
  the session and \<^verbatim>\<open>hasPermission\<close> from the role context.
\<close>

datatype view = LoadingSpinner | Navigate string | Children

definition ProtectedRoute ::
  "'f user option \<Rightarrow> bool \<Rightarrow> string option \<Rightarrow> string option \<Rightarrow> js_error + view" where
  "ProtectedRoute currentUser loading userRole requiredPermission =
    (if loading then Inr LoadingSpinner
     else if currentUser = None then Inr (Navigate ''/login'')
     else if truthy requiredPermission then
       (case requiredPermission of
          None \<Rightarrow> Inr Children
        | Some p \<Rightarrow>
            (case hasPermission userRole p of
               Inl e \<Rightarrow> Inl e
             | Inr allowed \<Rightarrow> if \<not> allowed then Inr (Navigate ''/dashboard'') else Inr Children))
     else Inr Children)"

text \<open>The element of the route \<^verbatim>\<open>/documents\<close>.\<close>

definition documents_route :: "'f user option \<Rightarrow> bool \<Rightarrow> string option \<Rightarrow> js_error + view" where
  "documents_route currentUser loading userRole =
    ProtectedRoute currentUser loading userRole (Some ''canViewDocuments'')"

section \<open>The session manager\<close>

text \<open>
  The state of \<^verbatim>\<open>AuthProvider\<close> with the three pieces of the environment its
  functions write: the entry \<^verbatim>\<open>tailingsiq_token\<close> of the local storage, the default
  \<^verbatim>\<open>Authorization\<close> header of the API client and the address assigned to
  \<^verbatim>\<open>window.location.href\<close> (\<open>None\<close>: none assigned).
\<close>

record 'f session =
  currentUser :: "'f user option"
  loading :: bool
  token :: "string option"
  stored_token :: "string option"
  default_authorization :: "string option"
  location :: "string option"

text \<open>
  A value of a JSON body. Numbers are kept as integers: of a number only whether it is
  zero matters here.
\<close>

datatype json =
    JNull
  | JBool bool
  | JNum int
  | JStr string
  | JArr "json list"
  | JObj "(string \<times> json) list"

fun json_truthy :: "json \<Rightarrow> bool" where
  "json_truthy JNull = False"
| "json_truthy (JBool b) = b"
| "json_truthy (JNum n) = (n \<noteq> 0)"
| "json_truthy (JStr x) = truthy_str x"
| "json_truthy (JArr xs) = True"
| "json_truthy (JObj kvs) = True"

fun is_string :: "json \<Rightarrow> bool" where
  "is_string (JStr x) = True"
| "is_string v = False"

text \<open>
  What an awaited call of the API client gives: a fulfilled response with its data, or a
  rejection with \<^verbatim>\<open>error.response?.status\<close> (\<open>None\<close>: no response at all) and
  \<^verbatim>\<open>error.response?.data?.detail\<close> (\<open>None\<close>: \<^verbatim>\<open>undefined\<close>), which is whatever JSON
  value the body carries under \<^verbatim>\<open>detail\<close>. The client is created with the defaults of
  axios, which fulfil exactly the statuses 200 to 299. The data of \<^verbatim>\<open>/auth/me\<close> and
  \<^verbatim>\<open>/auth/profile\<close> is a user object, that of \<^verbatim>\<open>/auth/login\<close> an access token and a
  user object (spec, section 6).
\<close>

datatype 'a response = Ok 'a | Failed "nat option" "json option"

record request_config =
  Authorization :: "string option"

definition Bearer :: "string \<Rightarrow> string" where
  "Bearer t = ''Bearer '' @ t"

text \<open>The two interceptors of \<^verbatim>\<open>tailingsIQApi.js\<close>.\<close>

definition request_interceptor :: "'f session \<Rightarrow> request_config \<Rightarrow> request_config" where
  "request_interceptor s config =
    (case stored_token s of
       None \<Rightarrow> config
     | Some t \<Rightarrow> if truthy_str t then config\<lparr>Authorization := Some (Bearer t)\<rparr> else config)"

definition response_interceptor :: "'f session \<Rightarrow> 'a response \<Rightarrow> 'f session" where
  "response_interceptor s r =
    (case r of
       Ok d \<Rightarrow> s
     | Failed status detail \<Rightarrow>
         if status = Some 401 then s\<lparr>stored_token := None, location := Some ''/login''\<rparr>
         else s)"

text \<open>
  The configuration a request leaves with: the client's default header, then the request
  interceptor.
\<close>

definition outgoing :: "'f session \<Rightarrow> request_config" where
  "outgoing s = request_interceptor s \<lparr>Authorization = default_authorization s\<rparr>"

text \<open>
  The functions of \<^verbatim>\<open>AuthProvider\<close>. Each has one \<^verbatim>\<open>await\<close>. The part before it
  runs when the function is called; the part after it runs when the request settles, on
  the state of that moment, which other functions may have written meanwhile. Every
  request passes the response interceptor. A function applied to a state and an outcome
  is its two parts with nothing in between.
\<close>

definition template :: "string option \<Rightarrow> string" where
  "template t = (case t of None \<Rightarrow> ''null'' | Some x \<Rightarrow> x)"

definition validateToken_call :: "'f session \<Rightarrow> 'f session" where
  "validateToken_call s = s\<lparr>default_authorization := Some (Bearer (template (token s)))\<rparr>"

definition validateToken_settle :: "'f session \<Rightarrow> 'f user response \<Rightarrow> 'f session" where
  "validateToken_settle s r =
    (let s2 = response_interceptor s r
     in (case r of
           Ok d \<Rightarrow> s2\<lparr>currentUser := Some d\<rparr>
         | Failed status detail \<Rightarrow>
             s2\<lparr>stored_token := None, token := None, currentUser := None,
                default_authorization := None\<rparr>)
        \<lparr>loading := False\<rparr>)"

definition validateToken :: "'f session \<Rightarrow> 'f user response \<Rightarrow> 'f session" where
  "validateToken s r =
    (let s1 = s\<lparr>default_authorization := Some (Bearer (template (token s)))\<rparr>;
         s2 = response_interceptor s1 r
     in (case r of
           Ok d \<Rightarrow> s2\<lparr>currentUser := Some d\<rparr>
         | Failed status detail \<Rightarrow>
             s2\<lparr>stored_token := None, token := None, currentUser := None,
                default_authorization := None\<rparr>)
        \<lparr>loading := False\<rparr>)"

text \<open>The effect that depends on \<^verbatim>\<open>token\<close>.\<close>

definition token_effect :: "'f session \<Rightarrow> 'f user response \<Rightarrow> 'f session" where
  "token_effect s r = (if truthy (token s) then validateToken s r else s\<lparr>loading := False\<rparr>)"

definition AuthProvider_initial :: "string option \<Rightarrow> 'f session" where
  "AuthProvider_initial stored =
    \<lparr>currentUser = None, loading = True, token = stored, stored_token = stored,
     default_authorization = None, location = None\<rparr>"

text \<open>
  Start-up: the effect runs after the first render, and once more when it has changed
  \<^verbatim>\<open>token\<close>.
\<close>

definition initialize :: "string option \<Rightarrow> 'f user response \<Rightarrow> 'f session" where
  "initialize stored r =
    (let s0 = AuthProvider_initial stored;
         s1 = token_effect s0 r
     in if token s1 \<noteq> token s0 then token_effect s1 r else s1)"

text \<open>
  \<^verbatim>\<open>{ success: true }\<close> and \<^verbatim>\<open>{ success: false, error }\<close>; the error is the detail as
  it came, or the fallback string.
\<close>

datatype auth_result = Success | Failure json

text \<open>\<^verbatim>\<open>error.response?.data?.detail || fallback\<close>\<close>

definition detail_or :: "json option \<Rightarrow> string \<Rightarrow> json" where
  "detail_or detail fallback =
    (case detail of
       None \<Rightarrow> JStr fallback
     | Some v \<Rightarrow> if json_truthy v then v else JStr fallback)"

definition login :: "'f session \<Rightarrow> (string \<times> 'f user) response \<Rightarrow> 'f session \<times> auth_result" where
  "login s r =
    (let s1 = response_interceptor s r
     in case r of
          Ok (access_token, u) \<Rightarrow>
            (s1\<lparr>stored_token := Some access_token, token := Some access_token,
                default_authorization := Some (Bearer access_token),
                currentUser := Some u\<rparr>, Success)
        | Failed status detail \<Rightarrow> (s1, Failure (detail_or detail ''Login failed'')))"

text \<open>
  \<^verbatim>\<open>logout\<close> in its parts. Without a token no request is made and the \<^verbatim>\<open>finally\<close>
  block runs in the call; the flag tells whether a request is in flight.
\<close>

definition clear_session :: "'f session \<Rightarrow> 'f session" where
  "clear_session s =
    s\<lparr>stored_token := None, token := None, currentUser := None,
      default_authorization := None\<rparr>"

definition logout_call :: "'f session \<Rightarrow> 'f session \<times> bool" where
  "logout_call s = (if truthy (token s) then (s, True) else (clear_session s, False))"

definition logout_settle :: "'f session \<Rightarrow> unit response \<Rightarrow> 'f session" where
  "logout_settle s r = clear_session (response_interceptor s r)"

definition logout :: "'f session \<Rightarrow> unit response \<Rightarrow> 'f session" where
  "logout s r =
    (let s1 = (if truthy (token s) then response_interceptor s r else s)
     in s1\<lparr>stored_token := None, token := None, currentUser := None,
           default_authorization := None\<rparr>)"

definition updateProfile :: "'f session \<Rightarrow> 'f user response \<Rightarrow> 'f session \<times> auth_result" where
  "updateProfile s r =
    (let s1 = response_interceptor s r
     in case r of
          Ok d \<Rightarrow> (s1\<lparr>currentUser := Some d\<rparr>, Success)
        | Failed status detail \<Rightarrow> (s1, Failure (detail_or detail ''Profile update failed'')))"

text \<open>
  The hook \<^verbatim>\<open>useAuth\<close> has state of its own, of which \<^verbatim>\<open>refreshToken\<close> writes
  \<^verbatim>\<open>error\<close>, through \<^verbatim>\<open>handleError\<close>:
  \<^verbatim>\<open>err.response?.data?.detail || err.message || 'Authentication failed'\<close>.
\<close>

definition handleError :: "json option \<Rightarrow> string \<Rightarrow> json" where
  "handleError detail message =
    (let rest = (if truthy_str message then JStr message else JStr ''Authentication failed'')
     in case detail of
          None \<Rightarrow> rest
        | Some v \<Rightarrow> if json_truthy v then v else rest)"

text \<open>
  The session together with what is in flight. \<^verbatim>\<open>refreshToken\<close> awaits
  \<^verbatim>\<open>tailingsIQApi.auth.refreshToken()\<close>, which the API module does not define; its
  behaviour is a parameter of the call: it throws at once with a message (what the client
  object of the sources, having no member \<^verbatim>\<open>auth\<close>, does), or it sends a request through
  the client, which settles later. \<^verbatim>\<open>refreshToken\<close> returns the data of a fulfilled
  response to its caller and writes nothing of the session.
\<close>

record 'f app =
  session :: "'f session"
  hook_error :: "json option"
  logout_waits :: bool
  refresh_waits :: bool

datatype 'd piece =
    LogoutCall
  | LogoutSettle "unit response"
  | RefreshCall "string option"
  | RefreshSettle "'d response" string

fun piece_step :: "'f app \<Rightarrow> 'd piece \<Rightarrow> 'f app" where
  "piece_step a LogoutCall =
    (case logout_call (session a) of
       (s1, waits) \<Rightarrow> a\<lparr>session := s1, logout_waits := waits\<rparr>)"
| "piece_step a (LogoutSettle r) =
    (if logout_waits a
     then a\<lparr>session := logout_settle (session a) r, logout_waits := False\<rparr>
     else a)"
| "piece_step a (RefreshCall thrown) =
    (case thrown of
       Some message \<Rightarrow> a\<lparr>hook_error := Some (handleError None message)\<rparr>
     | None \<Rightarrow> a\<lparr>refresh_waits := True\<rparr>)"
| "piece_step a (RefreshSettle r message) =
    (if refresh_waits a
     then (case r of
             Ok d \<Rightarrow> a\<lparr>session := response_interceptor (session a) r, refresh_waits := False\<rparr>
           | Failed status detail \<Rightarrow>
               a\<lparr>session := response_interceptor (session a) r,
                 hook_error := Some (handleError detail message), refresh_waits := False\<rparr>)
     else a)"

fun play :: "'f app \<Rightarrow> 'd piece list \<Rightarrow> 'f app" where
  "play a [] = a"
| "play a (p # ps) = play (piece_step a p) ps"

definition start :: "'f session \<Rightarrow> 'f app" where
  "start s = \<lparr>session = s, hook_error = None, logout_waits = False, refresh_waits = False\<rparr>"

text \<open>All orders of the parts of two functions that keep the order within each.\<close>

fun interleavings :: "'a list \<Rightarrow> 'a list \<Rightarrow> 'a list list" where
  "interleavings [] ys = [ys]"
| "interleavings xs [] = [xs]"
| "interleavings (x # xs) (y # ys) =
    map ((#) x) (interleavings xs (y # ys)) @ map ((#) y) (interleavings (x # xs) ys)"

definition logged_out :: "'f session \<Rightarrow> bool" where
  "logged_out s \<longleftrightarrow> token s = None \<and> stored_token s = None \<and> currentUser s = None"

text \<open>The invariant of the session: a current user comes with a token.\<close>

definition user_has_token :: "'f session \<Rightarrow> bool" where
  "user_has_token s \<longleftrightarrow> (currentUser s \<noteq> None \<longrightarrow> truthy (token s))"

text \<open>
  Following the spec's words: the hierarchy level of a role name, an unknown role having
  level 0; and the keys of the permission table.
\<close>

definition hierarchy_level :: "string \<Rightarrow> nat" where
  "hierarchy_level r = (case map_of ROLE_HIERARCHY r of Some n \<Rightarrow> n | None \<Rightarrow> 0)"

definition known_permission :: "string \<Rightarrow> bool" where
  "known_permission p = (p \<in> set (map fst PERMISSIONS))"

definition allowed_roles :: "string \<Rightarrow> string list" where
  "allowed_roles p = (case map_of PERMISSIONS p of Some rs \<Rightarrow> rs | None \<Rightarrow> [])"

text \<open>
  Following the spec's words for \<^verbatim>\<open>canAccessFacility\<close>: true iff the user has no
  facility restriction list, or the facility is in the list, or the user holds
  \<^verbatim>\<open>canViewAllDocuments\<close>.
\<close>

definition spec_canAccessFacility :: "'f user option \<Rightarrow> string option \<Rightarrow> 'f \<Rightarrow> bool" where
  "spec_canAccessFacility cu userRole facilityId =
    (case user_facilities cu of
       None \<Rightarrow> True
     | Some fs \<Rightarrow> facilityId \<in> set fs \<or> hasPermission userRole ''canViewAllDocuments'' = Inr True)"

section \<open>Properties of the permission evaluator\<close>

lemma hasPermission_no_role: "\<not> truthy R \<Longrightarrow> hasPermission R P = Inr False"
  by (auto simp: hasPermission_def truthy_def split: option.splits)

text \<open>The state the provider derives from a user with a non-empty role.\<close>

lemma provider_state:
  "truthy_str r \<Longrightarrow>
   userRole_of (Some (u\<lparr>role := Some r\<rparr>)) = Some r \<and>
   roleLevel_of prev (Some (u\<lparr>role := Some r\<rparr>)) = setRoleLevel prev (lookup_level r)"
  by (simp add: userRole_of_def roleLevel_of_def user_role_def truthy_def role_level_def)

lemma provider_state_no_user:
  "userRole_of None = None \<and> roleLevel_of prev None = Inr (Num 0)"
  by (simp add: userRole_of_def roleLevel_of_def user_role_def truthy_def role_level_def)

lemma known_permission_iff: "known_permission P \<longleftrightarrow> map_of PERMISSIONS P \<noteq> None"
  by (simp add: known_permission_def map_of_eq_None_iff)

text \<open>
  \<^verbatim>\<open>hasPermission\<close> returns true exactly when a role is set, the name is a key of the
  table and the role is in the key's list. This holds for every name.
\<close>

lemma hasPermission_true_iff:
  "hasPermission R P = Inr True \<longleftrightarrow>
     (\<exists>r. R = Some r \<and> truthy_str r \<and> known_permission P \<and> r \<in> set (allowed_roles P))"
  by (auto simp: hasPermission_def js_get_def known_permission_iff allowed_roles_def
           split: option.splits)

text \<open>
  For a name that \<^verbatim>\<open>Object.prototype\<close> does not define, and for every key of the table,
  the call returns, and its value is the membership test.
\<close>

lemma hasPermission_own:
  "P \<notin> set Object_prototype_keys \<Longrightarrow>
   hasPermission R P =
     Inr (\<exists>r. R = Some r \<and> truthy_str r \<and> known_permission P \<and> r \<in> set (allowed_roles P))"
  by (auto simp: hasPermission_def js_get_def known_permission_iff allowed_roles_def
           split: option.splits)

lemma hasPermission_known:
  "known_permission P \<Longrightarrow>
   hasPermission R P = Inr (\<exists>r. R = Some r \<and> truthy_str r \<and> r \<in> set (allowed_roles P))"
  by (auto simp: hasPermission_def js_get_def known_permission_iff allowed_roles_def
           split: option.splits)

lemma hasPermission_unknown_not_true:
  "\<not> known_permission P \<Longrightarrow> hasPermission R P \<noteq> Inr True"
  by (simp add: hasPermission_true_iff)

lemma permission_keys_not_inherited:
  "list_all (\<lambda>k. map_of PERMISSIONS k = None) Object_prototype_keys"
  by (simp add: Object_prototype_keys_def PERMISSIONS_def)

text \<open>
  With a role set, every name that \<^verbatim>\<open>Object.prototype\<close> defines makes the call raise.
\<close>

lemma hasPermission_inherited:
  assumes "P \<in> set Object_prototype_keys" and "truthy_str r"
  shows "hasPermission (Some r) P = Inl TypeError"
proof -
  from assms(1) permission_keys_not_inherited have "map_of PERMISSIONS P = None"
    by (simp add: list_all_iff)
  with assms show ?thesis
    by (simp add: hasPermission_def js_get_def)
qed

text \<open>
  Claim C1 (the part that fails on the code). The claim says that an unknown permission
  name always yields false. The name \<^verbatim>\<open>constructor\<close> is not a key of the table, yet
  \<^verbatim>\<open>PERMISSIONS['constructor']\<close> is the inherited function \<^verbatim>\<open>Object\<close>, which passes
  the guard and has no \<^verbatim>\<open>includes\<close>: under the role \<^verbatim>\<open>viewer\<close> the call raises a
  TypeError instead of returning false.
\<close>

theorem hasPermission_inherited_name_raises:
  "\<not> known_permission ''constructor'' \<and>
   hasPermission (Some VIEWER) ''constructor'' = Inl TypeError"
  by (simp add: known_permission_def hasPermission_def js_get_def PERMISSIONS_def
        Object_prototype_keys_def truthy_str_def)

lemma canViewDocuments_undefined: "js_get PERMISSIONS ''canViewDocuments'' = Undefined"
  by (simp add: js_get_def PERMISSIONS_def Object_prototype_keys_def)

lemma hasPermission_canViewDocuments: "hasPermission R ''canViewDocuments'' = Inr False"
  by (simp add: hasPermission_def canViewDocuments_undefined split: option.splits)

text \<open>
  Claim C10. The name \<^verbatim>\<open>canViewDocuments\<close> that the route \<^verbatim>\<open>/documents\<close> requires is
  not a key of \<^verbatim>\<open>PERMISSIONS\<close>; so \<^verbatim>\<open>hasPermission('canViewDocuments')\<close> is false
  under every role, the guard of the route never renders the page, and once loading is
  over it sends every authenticated user to \<^verbatim>\<open>/dashboard\<close>.
\<close>

theorem documents_route_closed:
  "\<not> known_permission ''canViewDocuments'' \<and>
   (\<forall>R. hasPermission R ''canViewDocuments'' = Inr False) \<and>
   (\<forall>cu l R. documents_route cu l R \<noteq> Inr Children) \<and>
   (\<forall>cu R. cu \<noteq> None \<longrightarrow> documents_route cu False R = Inr (Navigate ''/dashboard''))"
proof (intro conjI allI impI)
  show "\<not> known_permission ''canViewDocuments''"
    by (simp add: known_permission_def PERMISSIONS_def)
next
  fix R
  show "hasPermission R ''canViewDocuments'' = Inr False"
    by (rule hasPermission_canViewDocuments)
next
  fix cu :: "'a user option" and l R
  show "documents_route cu l R \<noteq> Inr Children"
    by (simp add: documents_route_def ProtectedRoute_def hasPermission_canViewDocuments
          truthy_def truthy_str_def)
next
  fix cu :: "'b user option" and R
  assume "cu \<noteq> None"
  then show "documents_route cu False R = Inr (Navigate ''/dashboard'')"
    by (simp add: documents_route_def ProtectedRoute_def hasPermission_canViewDocuments
          truthy_def truthy_str_def)
qed

theorem documents_route_closed_witness:
  "Some \<lparr>role = Some SUPER_ADMIN, facilities_access = (None :: nat list option)\<rparr> \<noteq> None \<and>
   documents_route (Some \<lparr>role = Some SUPER_ADMIN, facilities_access = (None :: nat list option)\<rparr>)
     False (Some SUPER_ADMIN) = Inr (Navigate ''/dashboard'')"
  using documents_route_closed by blast

subsection \<open>The role hierarchy\<close>

lemma known_role_not_inherited:
  "r \<in> set (map snd USER_ROLES) \<Longrightarrow> r \<notin> set Object_prototype_keys"
  by (auto simp: USER_ROLES_def Object_prototype_keys_def)

lemma lookup_level_own:
  "r \<notin> set Object_prototype_keys \<Longrightarrow> lookup_level r = Val (hierarchy_level r)"
  by (auto simp: lookup_level_def or_default_def js_get_def hierarchy_level_def truthy_num_def
           split: option.splits)

lemma role_keys_not_inherited:
  "list_all (\<lambda>k. map_of ROLE_HIERARCHY k = None) Object_prototype_keys"
  by (simp add: Object_prototype_keys_def ROLE_HIERARCHY_def)

lemma inherited_not_role_key:
  "r \<in> set Object_prototype_keys \<Longrightarrow> map_of ROLE_HIERARCHY r = None"
  using role_keys_not_inherited by (simp add: list_all_iff)

lemma lookup_level_inherited:
  "r \<in> set Object_prototype_keys \<Longrightarrow> lookup_level r = Proto r"
  by (simp add: lookup_level_def or_default_def js_get_def inherited_not_role_key)

lemma hierarchy_level_inherited:
  "r \<in> set Object_prototype_keys \<Longrightarrow> hierarchy_level r = 0"
  by (simp add: hierarchy_level_def inherited_not_role_key)

text \<open>
  For a role that \<^verbatim>\<open>Object.prototype\<close> does not name, the effect stores the number that
  is the role's level, whatever the level was before.
\<close>

lemma role_level_own:
  "r \<notin> set Object_prototype_keys \<Longrightarrow> role_level prev (Some r) = Inr (Num (hierarchy_level r))"
  by (simp add: role_level_def setRoleLevel_def lookup_level_own truthy_str_def
        hierarchy_level_def ROLE_HIERARCHY_def)

lemma role_level_None: "role_level prev None = Inr (Num 0)"
  by (simp add: role_level_def)

lemma hasHigherRoleThan_levels:
  "R2 \<notin> set Object_prototype_keys \<Longrightarrow>
   hasHigherRoleThan (Num n) R2 \<longleftrightarrow> n > hierarchy_level R2"
  by (simp add: hasHigherRoleThan_def lookup_level_own js_gt_def level_number_def)

lemma hasHigherRoleThan_irrefl:
  "R \<notin> set Object_prototype_keys \<Longrightarrow> \<not> hasHigherRoleThan (Num (hierarchy_level R)) R"
  by (simp add: hasHigherRoleThan_levels)

text \<open>
  No role is higher than itself, also where the effect has run an inherited function as
  an updater: the strings that the level state can convert to are below the source text of
  every function.
\<close>

lemma not_gt_function:
  assumes "x = ''[object Undefined]'' \<or> x = ''[object Object]''" and "k \<noteq> ''__proto__''"
  shows "\<not> x > to_primitive k"
  using assms by (auto simp: to_primitive_def less_char_def)

lemma hasHigherRoleThan_irrefl_state:
  assumes "role_level prev (Some R) = Inr l"
  shows "\<not> hasHigherRoleThan l R"
proof (cases "R \<in> set Object_prototype_keys")
  case False
  with assms have "l = Num (hierarchy_level R)"
    by (simp add: role_level_own)
  with False show ?thesis
    by (simp add: hasHigherRoleThan_levels)
next
  case True
  then have lk: "lookup_level R = Proto R" by (rule lookup_level_inherited)
  from True have ne: "truthy_str R" by (auto simp: Object_prototype_keys_def truthy_str_def)
  show ?thesis
  proof (cases "R = ''__proto__''")
    case True
    with assms lk ne show ?thesis
      by (simp add: role_level_def setRoleLevel_def hasHigherRoleThan_def js_gt_def
            level_string_def to_primitive_def)
  next
    case False
    have "level_string l = Some x \<Longrightarrow> x = ''[object Undefined]'' \<or> x = ''[object Object]''" for x
      by (cases l) (simp_all add: level_string_def)
    with not_gt_function [OF _ False] show ?thesis
      by (auto simp: hasHigherRoleThan_def lk js_gt_def split: option.splits)
  qed
qed

lemma known_role_cases:
  "R \<in> set (map snd USER_ROLES) \<longleftrightarrow>
     R = SUPER_ADMIN \<or> R = ADMIN \<or> R = ENGINEER_OF_RECORD \<or> R = TSF_OPERATOR \<or>
     R = REGULATOR \<or> R = MANAGEMENT \<or> R = CONSULTANT \<or> R = VIEWER"
  by (simp add: USER_ROLES_def)

lemma hierarchy_level_values:
  "hierarchy_level SUPER_ADMIN = 8" "hierarchy_level ADMIN = 7"
  "hierarchy_level ENGINEER_OF_RECORD = 6" "hierarchy_level MANAGEMENT = 5"
  "hierarchy_level TSF_OPERATOR = 4" "hierarchy_level REGULATOR = 3"
  "hierarchy_level CONSULTANT = 2" "hierarchy_level VIEWER = 1"
  by (simp_all add: hierarchy_level_def ROLE_HIERARCHY_def)

lemma role_of_level:
  assumes "R \<in> set (map snd USER_ROLES)"
  shows "(let n = hierarchy_level R in
          if n = 8 then SUPER_ADMIN else if n = 7 then ADMIN else if n = 6 then ENGINEER_OF_RECORD
          else if n = 5 then MANAGEMENT else if n = 4 then TSF_OPERATOR else if n = 3 then REGULATOR
          else if n = 2 then CONSULTANT else VIEWER) = R"
  using assms unfolding known_role_cases
  by (elim disjE) (simp_all add: hierarchy_level_values)

lemma hierarchy_level_inj:
  assumes "R1 \<in> set (map snd USER_ROLES)" and "R2 \<in> set (map snd USER_ROLES)"
    and "hierarchy_level R1 = hierarchy_level R2"
  shows "R1 = R2"
  using role_of_level [OF assms(1)] role_of_level [OF assms(2)] assms(3) by (simp add: Let_def)

lemma hierarchy_level_range:
  assumes "R \<in> set (map snd USER_ROLES)"
  shows "1 \<le> hierarchy_level R \<and> hierarchy_level R \<le> 8"
  using assms unfolding known_role_cases
  by (elim disjE) (simp_all add: hierarchy_level_values)

text \<open>
  On the 8 known roles: the level state is the role's level, and \<^verbatim>\<open>hasHigherRoleThan\<close>
  is the strict order of the levels, which are distinct.
\<close>

lemma role_level_known:
  "R \<in> set (map snd USER_ROLES) \<Longrightarrow> role_level prev (Some R) = Inr (Num (hierarchy_level R))"
  by (rule role_level_own) (rule known_role_not_inherited)

lemma hasHigherRoleThan_known:
  assumes "R2 \<in> set (map snd USER_ROLES)"
  shows "hasHigherRoleThan (Num (hierarchy_level R1)) R2 \<longleftrightarrow> hierarchy_level R1 > hierarchy_level R2"
  using assms [THEN known_role_not_inherited] by (rule hasHigherRoleThan_levels)

lemma hasHigherRoleThan_total:
  assumes k1: "R1 \<in> set (map snd USER_ROLES)" and k2: "R2 \<in> set (map snd USER_ROLES)"
    and ne: "R1 \<noteq> R2"
  shows "hasHigherRoleThan (Num (hierarchy_level R1)) R2 \<or>
         hasHigherRoleThan (Num (hierarchy_level R2)) R1"
proof -
  from hierarchy_level_inj [OF k1 k2] ne have "hierarchy_level R1 \<noteq> hierarchy_level R2"
    by blast
  then have "hierarchy_level R1 > hierarchy_level R2 \<or> hierarchy_level R2 > hierarchy_level R1"
    by arith
  with hasHigherRoleThan_known [OF k2, of R1] hasHigherRoleThan_known [OF k1, of R2] show ?thesis
    by blast
qed

lemma hasHigherRoleThan_trans:
  assumes k2: "R2 \<in> set (map snd USER_ROLES)" and k3: "R3 \<in> set (map snd USER_ROLES)"
    and "hasHigherRoleThan (Num (hierarchy_level R1)) R2"
    and "hasHigherRoleThan (Num (hierarchy_level R2)) R3"
  shows "hasHigherRoleThan (Num (hierarchy_level R1)) R3"
  using assms(3,4) hasHigherRoleThan_known [OF k2, of R1] hasHigherRoleThan_known [OF k3, of R2]
    hasHigherRoleThan_known [OF k3, of R1] by simp

text \<open>
  Claim C4 (the part that fails on the code). The claim gives an unknown role the level 0,
  so the role \<^verbatim>\<open>viewer\<close> (level 1) is higher than the unknown role \<^verbatim>\<open>constructor\<close>.
  Under \<^verbatim>\<open>viewer\<close> the level state is the number 1, whatever it was before. In the code
  \<^verbatim>\<open>ROLE_HIERARCHY['constructor'] || 0\<close> is the inherited function \<^verbatim>\<open>Object\<close>, not
  0, and \<^verbatim>\<open>1 > Object\<close> is false.
\<close>

theorem hasHigherRoleThan_inherited_name:
  "hierarchy_level VIEWER > hierarchy_level ''constructor'' \<and>
   (\<forall>prev. role_level prev (Some VIEWER) = Inr (Num 1)) \<and>
   \<not> hasHigherRoleThan (Num 1) ''constructor''"
  by (simp add: hierarchy_level_def ROLE_HIERARCHY_def hasHigherRoleThan_def role_level_def
        setRoleLevel_def truthy_str_def lookup_level_def or_default_def js_get_def
        Object_prototype_keys_def truthy_num_def js_gt_def level_string_def)

subsection \<open>Facility access\<close>

lemma canViewAllDocuments_known: "known_permission ''canViewAllDocuments''"
  by (simp add: known_permission_def PERMISSIONS_def)

text \<open>
  Claim C2, as the code has it: \<^verbatim>\<open>canAccessFacility\<close> returns true iff the user holds
  \<^verbatim>\<open>canViewAllDocuments\<close>, or has a restriction list and the facility is in it. A
  missing list grants nothing by itself.
\<close>

theorem canAccessFacility_by_permission_or_list:
  "canAccessFacility cu R f =
     Inr (hasPermission R ''canViewAllDocuments'' = Inr True \<or>
          (\<exists>fs. user_facilities cu = Some fs \<and> f \<in> set fs))"
  by (auto simp: canAccessFacility_def hasPermission_known [OF canViewAllDocuments_known]
           split: option.splits)

text \<open>
  Claim C2 as stated fails: a \<^verbatim>\<open>viewer\<close> without a restriction list has access by the
  claim's rule, and the code denies it.
\<close>

theorem canAccessFacility_no_list_counterexample:
  "spec_canAccessFacility (Some \<lparr>role = Some VIEWER, facilities_access = None\<rparr>)
     (userRole_of (Some \<lparr>role = Some VIEWER, facilities_access = None\<rparr>)) (1::nat) \<and>
   canAccessFacility (Some \<lparr>role = Some VIEWER, facilities_access = None\<rparr>)
     (userRole_of (Some \<lparr>role = Some VIEWER, facilities_access = None\<rparr>)) (1::nat) = Inr False"
  by (simp add: spec_canAccessFacility_def canAccessFacility_def user_facilities_def
        userRole_of_def user_role_def truthy_def
        hasPermission_def js_get_def PERMISSIONS_def truthy_str_def)

subsection \<open>Roles available for user creation\<close>

lemma getAvailableRoles_values:
  "map role_value (getAvailableRoles lv) =
     filter (\<lambda>r. js_le (lookup_level r) lv) (map snd USER_ROLES)"
  by (simp add: getAvailableRoles_def filter_map o_def case_prod_unfold)

lemma getAvailableRoles_entry:
  "e \<in> set (getAvailableRoles lv) \<Longrightarrow>
   role_label e = getRoleDisplayName (role_value e) \<and> role_color e = getRoleColor (role_value e)"
  by (auto simp: getAvailableRoles_def)

text \<open>
  With a number as level state the list is exactly the roles of the enumeration whose level
  is at most that number, in the order of the enumeration.
\<close>

lemma getAvailableRoles_by_level:
  "map role_value (getAvailableRoles (Num L)) =
     filter (\<lambda>r. hierarchy_level r \<le> L) (map snd USER_ROLES)"
proof -
  have "js_le (lookup_level r) (Num L) \<longleftrightarrow> hierarchy_level r \<le> L"
    if "r \<in> set (map snd USER_ROLES)" for r
    using that by (simp add: lookup_level_own known_role_not_inherited js_le_def level_number_def)
  then show ?thesis
    unfolding getAvailableRoles_values by (intro filter_cong refl)
qed

lemma getAvailableRoles_boxed:
  "map role_value (getAvailableRoles (NumObj L)) = map role_value (getAvailableRoles (Num L))"
  unfolding getAvailableRoles_values
  by (intro filter_cong refl)
     (simp add: js_le_def level_number_def level_string_def split: jsval.splits)

lemma getAvailableRoles_by_role:
  assumes "R \<notin> set Object_prototype_keys"
  shows "role_level prev (Some R) = Inr (Num (hierarchy_level R)) \<and>
         map role_value (getAvailableRoles (Num (hierarchy_level R))) =
           filter (\<lambda>r. hierarchy_level r \<le> hierarchy_level R) (map snd USER_ROLES)"
  using assms by (simp add: role_level_own getAvailableRoles_by_level)

lemma length_filter_mono:
  "(\<And>x. x \<in> set xs \<Longrightarrow> P x \<Longrightarrow> Q x) \<Longrightarrow> length (filter P xs) \<le> length (filter Q xs)"
  by (induction xs) auto

lemma getAvailableRoles_mono:
  assumes "L \<le> L'"
  shows "length (getAvailableRoles (Num L)) \<le> length (getAvailableRoles (Num L'))"
proof -
  have "length (map role_value (getAvailableRoles (Num L)))
          \<le> length (map role_value (getAvailableRoles (Num L')))"
    unfolding getAvailableRoles_by_level using assms by (intro length_filter_mono) simp
  then show ?thesis by simp
qed

lemma getAvailableRoles_super_admin:
  "getAvailableRoles (Num 8) =
    [\<lparr>role_value = SUPER_ADMIN, role_label = Val ''Super Administrator'', role_color = Val ''#d32f2f''\<rparr>,
     \<lparr>role_value = ADMIN, role_label = Val ''Administrator'', role_color = Val ''#f57c00''\<rparr>,
     \<lparr>role_value = ENGINEER_OF_RECORD, role_label = Val ''Engineer of Record'', role_color = Val ''#006039''\<rparr>,
     \<lparr>role_value = TSF_OPERATOR, role_label = Val ''TSF Operator'', role_color = Val ''#1976d2''\<rparr>,
     \<lparr>role_value = REGULATOR, role_label = Val ''Regulator'', role_color = Val ''#7b1fa2''\<rparr>,
     \<lparr>role_value = MANAGEMENT, role_label = Val ''Management'', role_color = Val ''#388e3c''\<rparr>,
     \<lparr>role_value = CONSULTANT, role_label = Val ''Consultant'', role_color = Val ''#0288d1''\<rparr>,
     \<lparr>role_value = VIEWER, role_label = Val ''Viewer'', role_color = Val ''#616161''\<rparr>]"
  by (simp add: getAvailableRoles_def lookup_level_def or_default_def js_get_def
        ROLE_HIERARCHY_def USER_ROLES_def truthy_num_def truthy_str_def getRoleDisplayName_def
        getRoleColor_def roleNames_def roleColors_def js_le_def level_number_def)

lemma getAvailableRoles_level_0: "getAvailableRoles (Num 0) = []"
proof -
  have "\<not> hierarchy_level r \<le> 0" if "r \<in> set (map snd USER_ROLES)" for r
    using hierarchy_level_range [OF that] by simp
  then have "map role_value (getAvailableRoles (Num 0)) = []"
    unfolding getAvailableRoles_by_level by (simp add: filter_empty_conv del: set_map)
  then show ?thesis by simp
qed

lemma hierarchy_level_unknown:
  "R \<notin> set (map snd USER_ROLES) \<Longrightarrow> hierarchy_level R = 0"
  by (simp add: hierarchy_level_def USER_ROLES_def ROLE_HIERARCHY_def)

text \<open>
  An absent role, and an unknown role that \<^verbatim>\<open>Object.prototype\<close> does not name, give the
  level 0 and the empty list.
\<close>

lemma getAvailableRoles_no_role:
  "role_level prev None = Inr (Num 0) \<and> getAvailableRoles (Num 0) = []"
  by (simp add: role_level_None getAvailableRoles_level_0)

lemma getAvailableRoles_unknown:
  assumes "R \<notin> set (map snd USER_ROLES)" and "R \<notin> set Object_prototype_keys"
  shows "role_level prev (Some R) = Inr (Num 0) \<and> getAvailableRoles (Num 0) = []"
  using assms
  by (simp add: role_level_own hierarchy_level_unknown getAvailableRoles_level_0 del: set_map)

text \<open>
  Claim C3 (the part that fails on the code). The claim says that under an unknown role the
  list is empty. The role \<^verbatim>\<open>constructor\<close> is none of the 8 roles and has level 0 by the
  claim's rule. In the code \<^verbatim>\<open>ROLE_HIERARCHY['constructor'] || 0\<close> is the inherited
  function \<^verbatim>\<open>Object\<close>, which \<^verbatim>\<open>setRoleLevel\<close> runs as an updater on the previous
  level: after a session of a \<^verbatim>\<open>super_admin\<close> (level 8) the level state becomes the
  Number object of 8, and \<^verbatim>\<open>getAvailableRoles\<close> returns all 8 roles.
\<close>

theorem getAvailableRoles_inherited_name:
  "''constructor'' \<notin> set (map snd USER_ROLES) \<and>
   hierarchy_level ''constructor'' = 0 \<and>
   role_level (Num 0) (Some SUPER_ADMIN) = Inr (Num 8) \<and>
   role_level (Num 8) (Some ''constructor'') = Inr (NumObj 8) \<and>
   map role_value (getAvailableRoles (NumObj 8)) = map snd USER_ROLES"
proof -
  have "map role_value (getAvailableRoles (NumObj 8)) = map snd USER_ROLES"
    by (simp add: getAvailableRoles_boxed getAvailableRoles_super_admin USER_ROLES_def)
  moreover have "role_level (Num 8) (Some ''constructor'') = Inr (NumObj 8)"
    by (simp add: role_level_def setRoleLevel_def truthy_str_def lookup_level_def or_default_def
          js_get_def ROLE_HIERARCHY_def Object_prototype_keys_def box_def)
  moreover have "role_level (Num 0) (Some SUPER_ADMIN) = Inr (Num 8)"
    by (simp add: role_level_def setRoleLevel_def truthy_str_def lookup_level_def or_default_def
          js_get_def ROLE_HIERARCHY_def truthy_num_def)
  moreover have "''constructor'' \<notin> set (map snd USER_ROLES)"
    by (simp add: USER_ROLES_def)
  moreover have "hierarchy_level ''constructor'' = 0"
    by (simp add: hierarchy_level_def ROLE_HIERARCHY_def)
  ultimately show ?thesis by simp
qed

section \<open>Properties of the session manager\<close>

text \<open>
  Claim C7. Whatever the outcome of the server call, and whether or not one is made,
  \<^verbatim>\<open>logout\<close> ends with the token, the stored token and the current user cleared (and
  the default header removed).
\<close>

theorem logout_clears:
  "token (logout s r) = None \<and> stored_token (logout s r) = None \<and>
   currentUser (logout s r) = None \<and> default_authorization (logout s r) = None"
  by (simp add: logout_def Let_def)

subsection \<open>The interceptors\<close>

lemma response_interceptor_other:
  "status \<noteq> Some 401 \<Longrightarrow> response_interceptor s (Failed status d) = s"
  by (simp add: response_interceptor_def)

lemma response_interceptor_Ok: "response_interceptor s (Ok d) = s"
  by (simp add: response_interceptor_def)

lemma response_interceptor_frame:
  "currentUser (response_interceptor s r) = currentUser s \<and>
   token (response_interceptor s r) = token s \<and>
   loading (response_interceptor s r) = loading s \<and>
   default_authorization (response_interceptor s r) = default_authorization s"
  by (simp add: response_interceptor_def split: response.splits)

text \<open>
  Claim C8. A stored token that is present (a non-empty string) is attached to the
  outgoing request as \<^verbatim>\<open>Bearer <token>\<close>, whatever the configuration carried before;
  and a rejection with status 401 clears the stored token and sets the location to
  \<^verbatim>\<open>/login\<close>. Every request of the session manager passes both interceptors.
\<close>

theorem interceptors_policy:
  "(\<forall>t. stored_token s = Some t \<and> truthy_str t \<longrightarrow>
        Authorization (request_interceptor s config) = Some (Bearer t) \<and>
        Authorization (outgoing s) = Some (Bearer t)) \<and>
   stored_token (response_interceptor s (Failed (Some 401) d :: 'r response)) = None \<and>
   location (response_interceptor s (Failed (Some 401) d :: 'r response)) = Some ''/login''"
  by (simp add: request_interceptor_def outgoing_def response_interceptor_def)

theorem interceptors_policy_witness:
  "stored_token (AuthProvider_initial (Some ''t1'') :: nat session) = Some ''t1'' \<and>
   truthy_str ''t1'' \<and>
   Authorization (request_interceptor (AuthProvider_initial (Some ''t1'') :: nat session)
       \<lparr>Authorization = None\<rparr>) = Some (Bearer ''t1'')"
proof -
  have a: "stored_token (AuthProvider_initial (Some ''t1'') :: nat session) = Some ''t1''"
    by (simp add: AuthProvider_initial_def)
  have b: "truthy_str ''t1''" by (simp add: truthy_str_def)
  note c = interceptors_policy [where 'r = unit
      and s = "AuthProvider_initial (Some ''t1'') :: nat session"
      and config = "\<lparr>Authorization = None\<rparr>" and d = None]
  from c a b show ?thesis by simp
qed

subsection \<open>The functions and their parts\<close>

lemma validateToken_split:
  "validateToken s r = validateToken_settle (validateToken_call s) r"
  by (simp add: validateToken_def validateToken_settle_def validateToken_call_def Let_def)

lemma logout_split:
  "logout s r = (case logout_call s of (s1, waits) \<Rightarrow> if waits then logout_settle s1 r else s1)"
  by (simp add: logout_def logout_call_def logout_settle_def clear_session_def Let_def)

subsection \<open>Login\<close>

lemma detail_or_string:
  "is_string (detail_or detail fallback) \<longleftrightarrow>
     (\<forall>v. detail = Some v \<and> json_truthy v \<longrightarrow> is_string v)"
  by (cases detail) (simp_all add: detail_or_def)

text \<open>
  Claim C6, as the code has it. On success \<^verbatim>\<open>login\<close> stores the returned token, makes
  it and the returned user the current ones and returns success. On failure it returns a
  failure result whose error is the detail of the response as it came, when that is
  truthy, and the string \<^verbatim>\<open>Login failed\<close> otherwise, so the error is a string exactly
  when the detail is falsy or a string. It leaves the token and the current user as they
  were; the stored token is left as it was unless the response has status 401, where the
  response interceptor has removed it and set the location to \<^verbatim>\<open>/login\<close>.
\<close>

theorem login_result:
  "fst (login s (Ok (access_token, u))) =
      s\<lparr>stored_token := Some access_token, token := Some access_token,
        default_authorization := Some (Bearer access_token), currentUser := Some u\<rparr> \<and>
   snd (login s (Ok (access_token, u))) = Success \<and>
   snd (login s (Failed status detail)) = Failure (detail_or detail ''Login failed'') \<and>
   (is_string (detail_or detail ''Login failed'') \<longleftrightarrow>
      (\<forall>v. detail = Some v \<and> json_truthy v \<longrightarrow> is_string v)) \<and>
   token (fst (login s (Failed status detail))) = token s \<and>
   currentUser (fst (login s (Failed status detail))) = currentUser s \<and>
   (status \<noteq> Some 401 \<longrightarrow> fst (login s (Failed status detail)) = s) \<and>
   (status = Some 401 \<longrightarrow>
      fst (login s (Failed status detail)) = s\<lparr>stored_token := None, location := Some ''/login''\<rparr>)"
  by (simp add: login_def response_interceptor_def detail_or_string)

theorem login_result_witness:
  "Some (500::nat) \<noteq> Some 401 \<and>
   fst (login (AuthProvider_initial (Some ''t0'') :: nat session) (Failed (Some 500) None))
     = AuthProvider_initial (Some ''t0'') \<and>
   Some (401::nat) = Some 401 \<and>
   stored_token (fst (login (AuthProvider_initial (Some ''t0'') :: nat session)
      (Failed (Some 401) (Some (JStr ''Incorrect username or password''))))) = None \<and>
   snd (login (AuthProvider_initial (Some ''t0'') :: nat session)
      (Failed (Some 401) (Some (JStr ''Incorrect username or password''))))
     = Failure (JStr ''Incorrect username or password'')"
proof -
  have a: "Some (500::nat) \<noteq> Some 401" by simp
  have b: "detail_or (Some (JStr ''Incorrect username or password'')) ''Login failed''
             = JStr ''Incorrect username or password''"
    by (simp add: detail_or_def truthy_str_def)
  from login_result [where s = "AuthProvider_initial (Some ''t0'') :: nat session"
      and access_token = "''t1''" and u = "\<lparr>role = None, facilities_access = None\<rparr>"
      and status = "Some 500" and detail = None]
    login_result [where s = "AuthProvider_initial (Some ''t0'') :: nat session"
      and access_token = "''t1''" and u = "\<lparr>role = None, facilities_access = None\<rparr>"
      and status = "Some 401" and detail = "Some (JStr ''Incorrect username or password'')"] a b
  show ?thesis by simp
qed

text \<open>
  Claim C6 as stated fails in two ways. A session is logged in with the token \<^verbatim>\<open>t0\<close>; a
  further \<^verbatim>\<open>login\<close> is rejected with status 401: it returns the failure result, and the
  stored token, which was \<^verbatim>\<open>t0\<close>, is gone. And a \<^verbatim>\<open>login\<close> rejected with status 422
  and a list as detail returns that list as its error, which is not a string.
\<close>

theorem login_failure_counterexample:
  "snd (login (fst (login (AuthProvider_initial None)
                 (Ok (''t0'', \<lparr>role = Some VIEWER, facilities_access = (None :: nat list option)\<rparr>))))
        (Failed (Some 401) (Some (JStr ''Incorrect username or password''))))
     = Failure (JStr ''Incorrect username or password'') \<and>
   stored_token (fst (login (AuthProvider_initial None)
                 (Ok (''t0'', \<lparr>role = Some VIEWER, facilities_access = (None :: nat list option)\<rparr>))))
     = Some ''t0'' \<and>
   stored_token (fst (login (fst (login (AuthProvider_initial None)
                 (Ok (''t0'', \<lparr>role = Some VIEWER, facilities_access = (None :: nat list option)\<rparr>))))
        (Failed (Some 401) (Some (JStr ''Incorrect username or password'')))))
     = None \<and>
   snd (login (AuthProvider_initial None :: nat session)
        (Failed (Some 422) (Some (JArr [JObj [(''msg'', JStr ''field required'')]]))))
     = Failure (JArr [JObj [(''msg'', JStr ''field required'')]]) \<and>
   \<not> is_string (JArr [JObj [(''msg'', JStr ''field required'')]])"
  by (simp add: login_def response_interceptor_def AuthProvider_initial_def detail_or_def
        truthy_str_def)

subsection \<open>The session invariant\<close>

lemma initialize_cases:
  "initialize st r =
    (if truthy st then
       (case r of
          Ok d \<Rightarrow> \<lparr>currentUser = Some d, loading = False, token = st, stored_token = st,
                   default_authorization = Some (Bearer (template st)), location = None\<rparr>
        | Failed status detail \<Rightarrow>
            \<lparr>currentUser = None, loading = False, token = None, stored_token = None,
             default_authorization = None,
             location = (if status = Some 401 then Some ''/login'' else None)\<rparr>)
     else \<lparr>currentUser = None, loading = False, token = st, stored_token = st,
           default_authorization = None, location = None\<rparr>)"
  by (cases r)
     (auto simp: initialize_def token_effect_def validateToken_def response_interceptor_def
        AuthProvider_initial_def Let_def truthy_def split: option.splits)

lemma initialize_state:
  "\<not> loading (initialize st r) \<and>
   ((currentUser (initialize st r) \<noteq> None \<and> truthy (token (initialize st r))) \<or>
    (currentUser (initialize st r) = None \<and> \<not> truthy (token (initialize st r))))"
  by (simp add: initialize_cases truthy_def split: response.splits)

text \<open>
  Claim C5, as the code has it. When the start-up validation has resolved and nothing else
  has written the session meanwhile, \<^verbatim>\<open>loading\<close> is false and exactly one holds: the
  current user is set together with a token, or both are absent (a token is present when it
  is a non-empty string, which is what the code tests). That a current user comes with a
  token is then kept by both parts of \<^verbatim>\<open>logout\<close>, by the call part of the validation,
  by a failed validation, login or profile update, and by a successful login whose access
  token is non-empty. A successful validation and a successful profile update set the
  current user and leave the token as it is: after them a current user comes with a token
  exactly when a token is present at the moment the response settles.
\<close>

theorem session_writers:
  "\<not> loading (initialize st (r :: 'f user response)) \<and>
   ((currentUser (initialize st r) \<noteq> None \<and> truthy (token (initialize st r))) \<or>
    (currentUser (initialize st r) = None \<and> \<not> truthy (token (initialize st r)))) \<and>
   \<not> ((currentUser (initialize st r) \<noteq> None \<and> truthy (token (initialize st r))) \<and>
      (currentUser (initialize st r) = None \<and> \<not> truthy (token (initialize st r)))) \<and>
   (user_has_token (s :: 'f session) \<longrightarrow> user_has_token (fst (logout_call s))) \<and>
   user_has_token (logout_settle s lr) \<and>
   (user_has_token s \<longrightarrow> user_has_token (validateToken_call s)) \<and>
   user_has_token (validateToken_settle s (Failed status detail)) \<and>
   (user_has_token s \<longrightarrow> user_has_token (fst (login s (Failed status detail)))) \<and>
   (user_has_token s \<longrightarrow> user_has_token (fst (updateProfile s (Failed status detail)))) \<and>
   (truthy_str access_token \<longrightarrow> user_has_token (fst (login s (Ok (access_token, u))))) \<and>
   (user_has_token (validateToken_settle s (Ok u)) \<longleftrightarrow> truthy (token s)) \<and>
   (user_has_token (fst (updateProfile s (Ok u))) \<longleftrightarrow> truthy (token s))"
proof (intro conjI impI)
  show "\<not> loading (initialize st r)"
    using initialize_state [of st r] by simp
  show "(currentUser (initialize st r) \<noteq> None \<and> truthy (token (initialize st r))) \<or>
    (currentUser (initialize st r) = None \<and> \<not> truthy (token (initialize st r)))"
    using initialize_state [of st r] by simp
  show "\<not> ((currentUser (initialize st r) \<noteq> None \<and> truthy (token (initialize st r))) \<and>
      (currentUser (initialize st r) = None \<and> \<not> truthy (token (initialize st r))))"
    by simp
  show "user_has_token (logout_settle s lr)"
    by (simp add: user_has_token_def logout_settle_def clear_session_def)
  show "user_has_token (validateToken_settle s (Failed status detail))"
    by (simp add: user_has_token_def validateToken_settle_def Let_def)
  show "user_has_token (validateToken_settle s (Ok u)) \<longleftrightarrow> truthy (token s)"
    by (simp add: user_has_token_def validateToken_settle_def response_interceptor_def Let_def)
  show "user_has_token (fst (updateProfile s (Ok u))) \<longleftrightarrow> truthy (token s)"
    by (simp add: user_has_token_def updateProfile_def response_interceptor_def)
next
  assume "user_has_token s"
  then show "user_has_token (fst (logout_call s))"
    by (simp add: user_has_token_def logout_call_def clear_session_def)
next
  assume "user_has_token s"
  then show "user_has_token (validateToken_call s)"
    by (simp add: user_has_token_def validateToken_call_def)
next
  assume "user_has_token s"
  then show "user_has_token (fst (login s (Failed status detail)))"
    by (simp add: user_has_token_def login_def response_interceptor_def)
next
  assume "user_has_token s"
  then show "user_has_token (fst (updateProfile s (Failed status detail)))"
    by (simp add: user_has_token_def updateProfile_def response_interceptor_def)
next
  assume "truthy_str access_token"
  then show "user_has_token (fst (login s (Ok (access_token, u))))"
    by (simp add: user_has_token_def login_def response_interceptor_def truthy_def)
qed

theorem session_writers_witness:
  "truthy_str ''t1'' \<and>
   user_has_token (fst (login (AuthProvider_initial None)
     (Ok (''t1'', \<lparr>role = Some VIEWER, facilities_access = (None :: nat list option)\<rparr>)))) \<and>
   user_has_token (AuthProvider_initial None :: nat session) \<and>
   user_has_token (fst (logout_call (AuthProvider_initial None :: nat session))) \<and>
   user_has_token (validateToken_call (AuthProvider_initial None :: nat session)) \<and>
   user_has_token (fst (login (AuthProvider_initial None :: nat session) (Failed None None))) \<and>
   user_has_token (fst (updateProfile (AuthProvider_initial None :: nat session) (Failed None None)))"
proof -
  have a: "truthy_str ''t1''" by (simp add: truthy_str_def)
  have b: "user_has_token (AuthProvider_initial None :: nat session)"
    by (simp add: user_has_token_def AuthProvider_initial_def)
  note t = session_writers [where s = "AuthProvider_initial None :: nat session"
      and access_token = "''t1''"
      and u = "\<lparr>role = Some VIEWER, facilities_access = (None :: nat list option)\<rparr>"
      and st = None and r = "Failed None None" and lr = "Ok ()"
      and status = None and detail = None]
  from t a have c: "user_has_token (fst (login (AuthProvider_initial None)
     (Ok (''t1'', \<lparr>role = Some VIEWER, facilities_access = (None :: nat list option)\<rparr>))))"
    by simp
  from t b have d: "user_has_token (fst (logout_call (AuthProvider_initial None :: nat session)))"
    and e: "user_has_token (validateToken_call (AuthProvider_initial None :: nat session))"
    and f: "user_has_token (fst (login (AuthProvider_initial None :: nat session) (Failed None None)))"
    and g: "user_has_token (fst (updateProfile (AuthProvider_initial None :: nat session) (Failed None None)))"
    by simp_all
  from a b c d e f g show ?thesis by (intro conjI)
qed

text \<open>
  Claim C5 as stated fails. At start-up the token \<^verbatim>\<open>t0\<close> is stored and the validation
  is called; \<^verbatim>\<open>logout\<close> runs and settles while the request for \<^verbatim>\<open>/auth/me\<close> is in
  flight; then that request is fulfilled: the validation has resolved, \<^verbatim>\<open>loading\<close> is
  false, the current user is set and there is no token. And after a start-up without a
  token, a fulfilled \<^verbatim>\<open>updateProfile\<close> sets the current user, still without a token.
\<close>

theorem session_invariant_counterexample:
  "currentUser (validateToken_settle
      (logout (validateToken_call (AuthProvider_initial (Some ''t0''))) (Ok ()))
      (Ok \<lparr>role = Some VIEWER, facilities_access = (None :: nat list option)\<rparr>))
     = Some \<lparr>role = Some VIEWER, facilities_access = None\<rparr> \<and>
   token (validateToken_settle
      (logout (validateToken_call (AuthProvider_initial (Some ''t0''))) (Ok ()))
      (Ok \<lparr>role = Some VIEWER, facilities_access = (None :: nat list option)\<rparr>)) = None \<and>
   \<not> loading (validateToken_settle
      (logout (validateToken_call (AuthProvider_initial (Some ''t0''))) (Ok ()))
      (Ok \<lparr>role = Some VIEWER, facilities_access = (None :: nat list option)\<rparr>)) \<and>
   currentUser (fst (updateProfile (initialize None (Failed None None))
      (Ok \<lparr>role = Some VIEWER, facilities_access = (None :: nat list option)\<rparr>)))
     = Some \<lparr>role = Some VIEWER, facilities_access = None\<rparr> \<and>
   token (fst (updateProfile (initialize None (Failed None None))
      (Ok \<lparr>role = Some VIEWER, facilities_access = (None :: nat list option)\<rparr>))) = None"
  by (simp add: validateToken_settle_def validateToken_call_def logout_def updateProfile_def
        response_interceptor_def AuthProvider_initial_def initialize_cases truthy_def
        truthy_str_def Let_def)

subsection \<open>Logout and a refresh in flight\<close>

lemma interleavings_two:
  "interleavings [a, b] [c, d] =
     [[a, b, c, d], [a, c, b, d], [a, c, d, b], [c, a, b, d], [c, a, d, b], [c, d, a, b]]"
  by simp

lemma logged_out_clear: "logged_out (clear_session s)"
  by (simp add: logged_out_def clear_session_def)

lemma logged_out_interceptor:
  "logged_out s \<Longrightarrow> logged_out (response_interceptor s r)"
  by (simp add: logged_out_def response_interceptor_def split: response.splits)

text \<open>
  Claim C9. \<^verbatim>\<open>refreshToken\<close> and \<^verbatim>\<open>logout\<close> are both called, and their parts run in
  any order that keeps the order within each function; whatever the requests return, and
  whether the refresh throws at once or is sent, the session ends logged out: no token, no
  stored token, no current user. In particular so in the two orders where \<^verbatim>\<open>logout\<close>
  is called while a sent refresh is in flight and the refresh is fulfilled, after the
  logout has settled or before.
\<close>

theorem logout_authoritative:
  "(\<forall>ps \<in> set (interleavings [RefreshCall thrown, RefreshSettle rr m] [LogoutCall, LogoutSettle lr]).
       logged_out (session (play (start s) ps))) \<and>
   logged_out (session (play (start s)
       [RefreshCall None, LogoutCall, LogoutSettle lr, RefreshSettle (Ok d) m])) \<and>
   logged_out (session (play (start s)
       [RefreshCall None, LogoutCall, RefreshSettle (Ok d) m, LogoutSettle lr]))"
  by (cases thrown; cases rr)
     (simp_all add: interleavings_two start_def logout_call_def logout_settle_def
        logged_out_clear logged_out_interceptor response_interceptor_Ok)

theorem logout_authoritative_witness:
  "[RefreshCall None, LogoutCall, LogoutSettle (Ok ()), RefreshSettle (Ok ()) ''Network Error'']
     \<in> set (interleavings [RefreshCall None, RefreshSettle (Ok ()) ''Network Error'']
               [LogoutCall, LogoutSettle (Ok ())]) \<and>
   logged_out (session (play
     (start (fst (login (AuthProvider_initial None)
        (Ok (''t1'', \<lparr>role = Some VIEWER, facilities_access = (None :: nat list option)\<rparr>)))))
     [RefreshCall None, LogoutCall, LogoutSettle (Ok ()), RefreshSettle (Ok ()) ''Network Error'']))"
proof -
  have a: "[RefreshCall None, LogoutCall, LogoutSettle (Ok ()), RefreshSettle (Ok ()) ''Network Error'']
     \<in> set (interleavings [RefreshCall None, RefreshSettle (Ok ()) ''Network Error'']
               [LogoutCall, LogoutSettle (Ok ())])"
    by (simp add: interleavings_two)
  note t = logout_authoritative [where thrown = None and rr = "Ok ()" and m = "''Network Error''"
      and lr = "Ok ()" and d = "()"
      and s = "fst (login (AuthProvider_initial None)
        (Ok (''t1'', \<lparr>role = Some VIEWER, facilities_access = (None :: nat list option)\<rparr>)))",
      THEN conjunct1, rule_format, OF a]
  from a t show ?thesis by (intro conjI)
qed

end
